theory Spec2Isabelle
  imports
    Complex_Main
    "HOL-Library.Char_ord"
    "HOL-Library.List_Lexorder"
    "HOL-Library.Product_Lexorder"
begin

section \<open>The energy-balance dashboard (app.py)\<close>

text \<open>
  The program is one script, \<^verbatim>\<open>main\<close>, run from top to bottom on every interaction,
  with two helpers, \<^verbatim>\<open>init_clickhouse_connection\<close> and \<^verbatim>\<open>load_data\<close>. The
  embedding follows the script section by section and keeps its variable names.

  Modelling decisions, stated once:
  \<^item> Numbers of the table (MW values, ClickHouse floats read into pandas) are exact
    reals; rounding of floating-point arithmetic and the formatting of a number into
    the text of a metric (\<^verbatim>\<open>f"{x:,.0f} MWh"\<close>) are outside the model. A metric carries
    its numeric value.
  \<^item> A \<^verbatim>\<open>datetime.date\<close> is its day number, a timestamp its position on the time
    axis; only their order is used.
  \<^item> Texts shown to the user are written without diacritics.
  \<^item> The decorators \<^verbatim>\<open>st.cache_resource\<close> and \<^verbatim>\<open>st.cache_data\<close> replay an earlier
    return value of the function body; the bodies are what is modelled.
  \<^item> Static page furniture (title, rules, headers, axis and legend layout) is left out;
    the footer is kept, because it tells a run that reached the end of the script from
    one cut short by \<^verbatim>\<open>st.stop()\<close>.
\<close>

subsection \<open>The table and the fetched rows\<close>

type_synonym date = int
type_synonym instant = int
type_synonym exn = string

text \<open>
  Modelled from the spec: the schema of table \<^verbatim>\<open>balanco_energia_subsistemas\<close> is not
  in the repository. The spec's data model gives one record per (timestamp, subsystem)
  with a load in MW and four generation components, each of which may be absent; the
  script agrees, wrapping exactly the four generation columns in \<^verbatim>\<open>COALESCE\<close>.
  The columns \<^verbatim>\<open>din_instante\<close>, \<^verbatim>\<open>nom_subsistema\<close> and \<^verbatim>\<open>val_carga\<close> pass
  unchanged from the table into the fetched frame and are shared by both row types.
\<close>

record medicao =
  din_instante :: instant
  nom_subsistema :: string
  val_carga :: real

record balanco_energia = medicao +
  data_ref :: date
  val_gerhidraulica :: "real option"
  val_gertermica :: "real option"
  val_gereolica :: "real option"
  val_gersolar :: "real option"

record df_row = medicao +
  geracao_hidraulica :: real
  geracao_termica :: real
  geracao_eolica :: real
  geracao_solar :: real
  geracao_total :: real

type_synonym tabela = "balanco_energia list"

subsection \<open>The two queries\<close>

text \<open>
  A query text is represented by the parameters interpolated into it.
  \<open>Subsistemas_Query\<close> stands for
  \<^verbatim>\<open>SELECT DISTINCT nom_subsistema FROM balanco_energia_subsistemas
  WHERE nom_subsistema != '' ORDER BY nom_subsistema\<close>
  and \<open>Query_Principal data_inicio data_fim subsistemas_selecionados\<close> for the
  f-string of lines 96 to 113. The labels are joined between single quotes as they
  are; a label that itself contains a quote is outside what this representation says.
\<close>

datatype query =
    Subsistemas_Query
  | Query_Principal date date "string list"

datatype dataframe =
    DataFrame
  | Subsistemas_Frame "string list"
  | Balanco_Frame "df_row list"

text \<open>\<open>DataFrame\<close> is \<^verbatim>\<open>pd.DataFrame()\<close>: no columns, no rows.\<close>

fun empty :: "dataframe \<Rightarrow> bool" where
  "empty DataFrame = True"
| "empty (Subsistemas_Frame labels) = (labels = [])"
| "empty (Balanco_Frame rows) = (rows = [])"

definition coalesce :: "real option \<Rightarrow> real \<Rightarrow> real" where
  "coalesce v d = (case v of None \<Rightarrow> d | Some x \<Rightarrow> x)"

definition select_principal :: "balanco_energia \<Rightarrow> df_row" where
  "select_principal r =
     \<lparr> din_instante = din_instante r,
       nom_subsistema = nom_subsistema r,
       val_carga = val_carga r,
       geracao_hidraulica = coalesce (val_gerhidraulica r) 0,
       geracao_termica = coalesce (val_gertermica r) 0,
       geracao_eolica = coalesce (val_gereolica r) 0,
       geracao_solar = coalesce (val_gersolar r) 0,
       geracao_total =
         coalesce (val_gerhidraulica r) 0 + coalesce (val_gertermica r) 0 +
         coalesce (val_gereolica r) 0 + coalesce (val_gersolar r) 0 \<rparr>"

definition where_principal :: "date \<Rightarrow> date \<Rightarrow> string list \<Rightarrow> balanco_energia \<Rightarrow> bool" where
  "where_principal data_inicio data_fim subsistemas r =
     (data_inicio \<le> data_ref r \<and> data_ref r \<le> data_fim \<and>
      nom_subsistema r \<in> set subsistemas)"

text \<open>
  What the server computes for a query on a given content of the table. Strings are
  ordered bytewise, as ClickHouse orders them. Rows with equal sort keys keep their
  table order here; ClickHouse leaves their order open.
\<close>

fun run_query :: "query \<Rightarrow> tabela \<Rightarrow> dataframe" where
  "run_query Subsistemas_Query tbl =
     Subsistemas_Frame
       (sort (remdups (filter (\<lambda>s. s \<noteq> []) (map nom_subsistema tbl))))"
| "run_query (Query_Principal data_inicio data_fim subsistemas) tbl =
     Balanco_Frame
       (sort_key (\<lambda>r. (din_instante r, nom_subsistema r))
          (map select_principal
             (filter (where_principal data_inicio data_fim subsistemas) tbl)))"

text \<open>
  A client is described by what happens to each query sent through it: the call raises
  an exception, or the server answers from the table as it is at that moment.
\<close>

type_synonym client = "query \<Rightarrow> exn + tabela"

definition query_df :: "client \<Rightarrow> query \<Rightarrow> exn + dataframe" where
  "query_df client q =
     (case client q of Inl e \<Rightarrow> Inl e | Inr tbl \<Rightarrow> Inr (run_query q tbl))"

subsection \<open>What a run shows\<close>

record scatter =
  scatter_x :: "instant list"
  scatter_y :: "real list"
  scatter_name :: string
  line_color :: string

text \<open>A metric whose value is \<open>None\<close> shows pandas' NaN.\<close>

datatype element =
    St_Error string
  | St_Info string
  | St_Warning string
  | St_Metric string "real option"
  | Plotly_Chart "scatter list"
  | Expander date date "string list" nat
  | Footer

datatype py_error = IndexError | KeyError | ZeroDivisionError

datatype outcome = Finished | Stopped | Raised py_error

record run =
  elements :: "element list"
  queries :: "query list"
  outcome :: outcome

subsection \<open>init\_clickhouse\_connection and load\_data\<close>

definition init_clickhouse_connection :: "exn + client \<Rightarrow> client option \<times> element list" where
  "init_clickhouse_connection get_client =
     (case get_client of
        Inr client \<Rightarrow> (Some client, [])
      | Inl e \<Rightarrow>
          (None,
           [St_Error (''Erro na conexao com ClickHouse: '' @ e),
            St_Info ''Configure as credenciais em .streamlit/secrets.toml'']))"

definition load_data :: "client \<Rightarrow> query \<Rightarrow> dataframe \<times> element list" where
  "load_data client q =
     (case query_df client q of
        Inr df \<Rightarrow> (df, [])
      | Inl e \<Rightarrow> (DataFrame, [St_Error (''Erro na consulta: '' @ e)]))"

subsection \<open>The pandas reductions used by the script\<close>

text \<open>
  \<^verbatim>\<open>Series.sum()\<close> of no values is 0; \<^verbatim>\<open>Series.mean()\<close> and \<^verbatim>\<open>Series.max()\<close>
  of no values are NaN, here \<open>None\<close>.
\<close>

definition pd_sum :: "real list \<Rightarrow> real" where
  "pd_sum xs = foldl (+) 0 xs"

definition pd_mean :: "real list \<Rightarrow> real option" where
  "pd_mean xs = (if xs = [] then None else Some (pd_sum xs / real (length xs)))"

fun pd_max :: "real list \<Rightarrow> real option" where
  "pd_max [] = None"
| "pd_max (x # xs) = Some (foldl max x xs)"

subsection \<open>Main metrics (lines 128 to 144)\<close>

definition carga_total :: "df_row list \<Rightarrow> real" where
  "carga_total df = pd_sum (map val_carga df) / 2"

definition demanda_media :: "df_row list \<Rightarrow> real option" where
  "demanda_media df = pd_mean (map val_carga df)"

definition pico_demanda :: "df_row list \<Rightarrow> real option" where
  "pico_demanda df = pd_max (map val_carga df)"

definition geracao_renovavel :: "df_row list \<Rightarrow> real" where
  "geracao_renovavel df =
     pd_sum (map (\<lambda>r. geracao_hidraulica r + geracao_eolica r + geracao_solar r) df)"

definition geracao_total_soma :: "df_row list \<Rightarrow> real" where
  "geracao_total_soma df = pd_sum (map geracao_total df)"

definition renovavel_pct :: "df_row list \<Rightarrow> real" where
  "renovavel_pct df =
     (if geracao_total_soma df > 0
      then geracao_renovavel df / geracao_total_soma df * 100
      else 0)"

definition metricas :: "df_row list \<Rightarrow> element list" where
  "metricas df =
     [St_Metric ''Energia Total'' (Some (carga_total df)),
      St_Metric ''Demanda Media'' (demanda_media df),
      St_Metric ''Pico de Demanda'' (pico_demanda df),
      St_Metric ''Renovavel'' (Some (renovavel_pct df))]"

subsection \<open>The load curve per subsystem (lines 151 to 169)\<close>

text \<open>
  The palette \<^verbatim>\<open>px.colors.qualitative.Set1\<close> belongs to the plotting library and is a
  parameter, \<open>cores\<close>. The loop body is \<open>add_trace\<close>; \<open>fig\<close> is the list of traces
  added so far. Indexing with \<^verbatim>\<open>i % len(cores)\<close> raises on an empty palette.
\<close>

definition add_trace ::
  "string list \<Rightarrow> df_row list \<Rightarrow> nat \<times> string \<Rightarrow> scatter list \<Rightarrow> py_error + scatter list" where
  "add_trace cores df p fig =
     (case p of (i, subsistema) \<Rightarrow>
        (let df_sub = filter (\<lambda>r. nom_subsistema r = subsistema) df in
         if df_sub \<noteq> [] then
           (if length cores = 0 then Inl ZeroDivisionError
            else Inr (fig @
              [\<lparr> scatter_x = map din_instante df_sub,
                 scatter_y = map val_carga df_sub,
                 scatter_name = subsistema,
                 line_color = cores ! (i mod length cores) \<rparr>]))
         else Inr fig))"

fun add_traces ::
  "string list \<Rightarrow> df_row list \<Rightarrow> (nat \<times> string) list \<Rightarrow> scatter list \<Rightarrow> py_error + scatter list" where
  "add_traces cores df [] fig = Inr fig"
| "add_traces cores df (p # rest) fig =
     (case add_trace cores df p fig of
        Inl err \<Rightarrow> Inl err
      | Inr fig' \<Rightarrow> add_traces cores df rest fig')"

definition curva_de_carga :: "string list \<Rightarrow> df_row list \<Rightarrow> string list \<Rightarrow> py_error + scatter list" where
  "curva_de_carga cores df subsistemas_selecionados =
     add_traces cores df (List.enumerate 0 subsistemas_selecionados) []"

text \<open>
  The series expected for the subsystem \<open>s\<close> at position \<open>i\<close> of the selection: its
  timestamps against its loads, in the palette colour at \<open>i\<close> modulo the palette size.
\<close>

definition serie :: "string list \<Rightarrow> df_row list \<Rightarrow> nat \<times> string \<Rightarrow> scatter" where
  "serie palette df p =
     (case p of (i, s) \<Rightarrow>
        \<lparr> scatter_x = map din_instante (filter (\<lambda>r. nom_subsistema r = s) df),
          scatter_y = map val_carga (filter (\<lambda>r. nom_subsistema r = s) df),
          scatter_name = s,
          line_color = palette ! (i mod length palette) \<rparr>)"

subsection \<open>The script\<close>

text \<open>
  The inputs of one run: what \<^verbatim>\<open>clickhouse_connect.get_client\<close> does, the tuple the
  date picker returns, the multiselect widget (from its options and its default to the
  labels it returns), and the palette.
\<close>

record env =
  get_client :: "exn + client"
  date_input :: "date list"
  multiselect :: "string list \<Rightarrow> string list \<Rightarrow> string list"
  cores :: "string list"

text \<open>Lines 66 to 69. \<^verbatim>\<open>periodo[0]\<close> of an empty tuple raises.\<close>

definition periodo_de_analise :: "date list \<Rightarrow> py_error + date \<times> date" where
  "periodo_de_analise periodo =
     (if length periodo = 2 then Inr (periodo ! 0, periodo ! 1)
      else (case periodo of [] \<Rightarrow> Inl IndexError | d # _ \<Rightarrow> Inr (d, d)))"

text \<open>\<^verbatim>\<open>df_subsistemas['nom_subsistema'].tolist()\<close>; a frame without the column raises.\<close>

fun tolist_nom_subsistema :: "dataframe \<Rightarrow> py_error + string list" where
  "tolist_nom_subsistema DataFrame = Inl KeyError"
| "tolist_nom_subsistema (Subsistemas_Frame labels) = Inr labels"
| "tolist_nom_subsistema (Balanco_Frame rows) = Inr (map nom_subsistema rows)"

definition after :: "element list \<Rightarrow> query list \<Rightarrow> run \<Rightarrow> run" where
  "after shown sent r =
     \<lparr> elements = shown @ elements r, queries = sent @ queries r, outcome = outcome r \<rparr>"

text \<open>The branch \<^verbatim>\<open>if subsistemas_selecionados:\<close>, lines 94 to 216, and the footer.\<close>

definition analise :: "string list \<Rightarrow> client \<Rightarrow> date \<Rightarrow> date \<Rightarrow> string list \<Rightarrow> run" where
  "analise palette client data_inicio data_fim subsistemas_selecionados =
     (let query_principal = Query_Principal data_inicio data_fim subsistemas_selecionados in
      case load_data client query_principal of (df, shown) \<Rightarrow>
        if empty df then
          \<lparr> elements = shown @
               [St_Warning ''Nenhum dado encontrado para o periodo selecionado''],
            queries = [query_principal], outcome = Stopped \<rparr>
        else
          (case df of
             Balanco_Frame rows \<Rightarrow>
               (case curva_de_carga palette rows subsistemas_selecionados of
                  Inl err \<Rightarrow>
                    \<lparr> elements = shown @ metricas rows,
                      queries = [query_principal], outcome = Raised err \<rparr>
                | Inr fig \<Rightarrow>
                    \<lparr> elements = shown @ metricas rows @
                        [Plotly_Chart fig,
                         Expander data_inicio data_fim subsistemas_selecionados (length rows),
                         Footer],
                      queries = [query_principal], outcome = Finished \<rparr>)
           | _ \<Rightarrow> \<lparr> elements = shown, queries = [query_principal], outcome = Raised KeyError \<rparr>))"

definition main :: "env \<Rightarrow> run" where
  "main env =
     (case init_clickhouse_connection (get_client env) of
        (None, shown0) \<Rightarrow> \<lparr> elements = shown0, queries = [], outcome = Stopped \<rparr>
      | (Some client, shown0) \<Rightarrow>
          (case periodo_de_analise (date_input env) of
             Inl err \<Rightarrow> \<lparr> elements = shown0, queries = [], outcome = Raised err \<rparr>
           | Inr (data_inicio, data_fim) \<Rightarrow>
               (case load_data client Subsistemas_Query of (df_subsistemas, shown1) \<Rightarrow>
                  after (shown0 @ shown1) [Subsistemas_Query]
                    (if \<not> empty df_subsistemas then
                       (case tolist_nom_subsistema df_subsistemas of
                          Inl err \<Rightarrow> \<lparr> elements = [], queries = [], outcome = Raised err \<rparr>
                        | Inr subsistemas_disponiveis \<Rightarrow>
                            (let subsistemas_selecionados =
                                   multiselect env subsistemas_disponiveis
                                     (if length subsistemas_disponiveis > 3
                                      then take 3 subsistemas_disponiveis
                                      else subsistemas_disponiveis)
                             in if subsistemas_selecionados \<noteq> [] then
                                  analise (cores env) client data_inicio data_fim
                                    subsistemas_selecionados
                                else
                                  \<lparr> elements =
                                      [St_Warning
                                         ''Selecione pelo menos um subsistema para visualizar os dados'',
                                       Footer],
                                    queries = [], outcome = Finished \<rparr>))
                     else
                       \<lparr> elements = [St_Error ''Nao foi possivel carregar os subsistemas''],
                         queries = [], outcome = Stopped \<rparr>))))"

subsection \<open>Example data\<close>

text \<open>
  The spec's example: window 2024-01-01 to 2024-01-07 (day numbers 738886 and 738892),
  subsystem SE/CO, two rows with loads 1000 and 2000. The table also holds a row of
  subsystem S from an earlier day and a row with an empty label.
\<close>

definition leitura ::
  "date \<Rightarrow> instant \<Rightarrow> string \<Rightarrow> real \<Rightarrow>
   real option \<Rightarrow> real option \<Rightarrow> real option \<Rightarrow> real option \<Rightarrow> balanco_energia" where
  "leitura dia instante subsistema carga hidraulica termica eolica solar =
     \<lparr> din_instante = instante, nom_subsistema = subsistema, val_carga = carga,
       data_ref = dia, val_gerhidraulica = hidraulica, val_gertermica = termica,
       val_gereolica = eolica, val_gersolar = solar \<rparr>"

definition tabela_exemplo :: tabela where
  "tabela_exemplo =
     [leitura 738886 0 ''SE/CO'' 1000 (Some 600) (Some 300) (Some 100) None,
      leitura 738886 1 ''SE/CO'' 2000 (Some 1200) (Some 500) (Some 200) (Some 100),
      leitura 738800 0 ''S'' 500 None None None None,
      leitura 738886 0 [] 7 None None None None]"

definition df_exemplo :: "df_row list" where
  "df_exemplo =
     map select_principal
       (filter (where_principal 738886 738892 [''SE/CO'']) tabela_exemplo)"

definition df_sem_geracao :: "df_row list" where
  "df_sem_geracao =
     map select_principal
       (filter (where_principal 738800 738800 [''S'']) tabela_exemplo)"

text \<open>Two tables with a negative thermal value.\<close>

definition tabela_total_negativo :: tabela where
  "tabela_total_negativo = [leitura 738886 0 ''N'' 100 (Some 1) (Some (- 2)) None None]"

definition df_total_negativo :: "df_row list" where
  "df_total_negativo = map select_principal tabela_total_negativo"

definition tabela_termica_negativa :: tabela where
  "tabela_termica_negativa = [leitura 738886 0 ''N'' 100 (Some 10) (Some (- 5)) None None]"

definition df_termica_negativa :: "df_row list" where
  "df_termica_negativa = map select_principal tabela_termica_negativa"

text \<open>
  A server that answers every query from the same table; one whose table has only an
  empty label; one on which the main query fails.
\<close>

definition servidor :: "tabela \<Rightarrow> client" where
  "servidor tbl = (\<lambda>q. Inr tbl)"

definition servidor_sem_rotulos :: client where
  "servidor_sem_rotulos = servidor [leitura 738886 0 [] 7 None None None None]"

definition servidor_falha_principal :: client where
  "servidor_falha_principal =
     (\<lambda>q. case q of
        Subsistemas_Query \<Rightarrow> Inr tabela_exemplo
      | Query_Principal data_inicio data_fim subsistemas \<Rightarrow> Inl ''timeout'')"

text \<open>The nine colours of the palette Set1, as an instance of the parameter \<open>cores\<close>.\<close>

definition set1 :: "string list" where
  "set1 =
     [''rgb(228,26,28)'', ''rgb(55,126,184)'', ''rgb(77,175,74)'', ''rgb(152,78,163)'',
      ''rgb(255,127,0)'', ''rgb(255,255,51)'', ''rgb(166,86,40)'', ''rgb(247,129,191)'',
      ''rgb(153,153,153)'']"

text \<open>
  Visits of the page: the widgets left at their defaults; the multiselect cleared; only
  the first day of a range picked; a window before any data; a table without labels; a
  main query that fails.
\<close>

definition env_exemplo :: env where
  "env_exemplo =
     \<lparr> get_client = Inr (servidor tabela_exemplo),
       date_input = [738886, 738892],
       multiselect = (\<lambda>options default. default),
       cores = set1 \<rparr>"

definition env_sem_selecao :: env where
  "env_sem_selecao = env_exemplo \<lparr> multiselect := (\<lambda>options default. []) \<rparr>"

definition env_um_dia :: env where
  "env_um_dia = env_exemplo \<lparr> date_input := [738886] \<rparr>"

definition env_sem_dados :: env where
  "env_sem_dados = env_exemplo \<lparr> date_input := [700000, 700006] \<rparr>"

definition env_sem_rotulos :: env where
  "env_sem_rotulos = env_exemplo \<lparr> get_client := Inr servidor_sem_rotulos \<rparr>"

definition env_falha_principal :: env where
  "env_falha_principal = env_exemplo \<lparr> get_client := Inr servidor_falha_principal \<rparr>"

section \<open>Properties\<close>

subsection \<open>Auxiliary facts\<close>

lemma foldl_add_sum_list: "foldl (+) a xs = a + sum_list (xs :: real list)"
  by (induction xs arbitrary: a) auto

lemma pd_sum_sum_list: "pd_sum xs = sum_list xs"
  by (simp add: pd_sum_def foldl_add_sum_list)

lemma foldl_max_Max: "foldl max a xs = Max (insert (a :: real) (set xs))"
proof (induction xs arbitrary: a)
  case Nil
  show ?case by simp
next
  case (Cons x xs)
  show ?case
  proof (cases "xs = []")
    case True
    then show ?thesis by (simp add: max.commute)
  next
    case False
    then have ne: "set xs \<noteq> {}" by simp
    have "foldl max a (x # xs) = Max (insert (max a x) (set xs))"
      by (simp add: Cons.IH)
    also have "\<dots> = max (max a x) (Max (set xs))"
      using ne by simp
    also have "\<dots> = max a (max x (Max (set xs)))"
      by (simp add: max.assoc)
    also have "\<dots> = Max (insert a (set (x # xs)))"
      using ne by simp
    finally show ?thesis .
  qed
qed

lemmas exemplo_defs =
  tabela_exemplo_def leitura_def df_exemplo_def servidor_def set1_def env_exemplo_def

lemmas metricas_defs =
  metricas_def carga_total_def demanda_media_def pico_demanda_def renovavel_pct_def
  geracao_total_soma_def geracao_renovavel_def pd_sum_def pd_mean_def

lemmas query_defs =
  load_data_def query_df_def where_principal_def select_principal_def coalesce_def

lemmas script_defs =
  main_def analise_def after_def init_clickhouse_connection_def periodo_de_analise_def
  curva_de_carga_def add_trace_def Let_def

subsection \<open>Fetched frames\<close>

lemma select_principal_total:
  "geracao_total (select_principal r) =
     geracao_hidraulica (select_principal r) + geracao_termica (select_principal r) +
     geracao_eolica (select_principal r) + geracao_solar (select_principal r)"
  by (simp add: select_principal_def)

text \<open>A frame with the balance columns can only be the answer to a main query.\<close>

lemma fetched_rows:
  assumes "load_data client q = (Balanco_Frame df, shown)"
  shows "\<exists>tbl data_inicio data_fim subsistemas.
           q = Query_Principal data_inicio data_fim subsistemas \<and>
           client q = Inr tbl \<and> shown = [] \<and>
           set df =
             select_principal ` {r \<in> set tbl. where_principal data_inicio data_fim subsistemas r}"
proof (cases "client q")
  case (Inl e)
  with assms show ?thesis
    by (simp add: load_data_def query_df_def)
next
  case (Inr tbl)
  with assms have rq: "run_query q tbl = Balanco_Frame df" and sh: "shown = []"
    by (simp_all add: load_data_def query_df_def)
  show ?thesis
  proof (cases q)
    case Subsistemas_Query
    with rq show ?thesis by simp
  next
    case (Query_Principal data_inicio data_fim subsistemas)
    with rq have "set df =
        select_principal ` {r \<in> set tbl. where_principal data_inicio data_fim subsistemas r}"
      by auto
    with Query_Principal Inr sh show ?thesis by blast
  qed
qed

lemma fetched_total:
  assumes "load_data client q = (Balanco_Frame df, shown)" and "r \<in> set df"
  shows "geracao_total r =
           geracao_hidraulica r + geracao_termica r + geracao_eolica r + geracao_solar r"
proof -
  from fetched_rows [OF assms(1)] assms(2) obtain raw where "r = select_principal raw"
    by auto
  then show ?thesis
    by (simp add: select_principal_total)
qed

subsection \<open>Demand metrics\<close>

lemma metricas_demand:
  assumes "df \<noteq> []"
  shows "take 3 (metricas df) =
    [St_Metric ''Energia Total'' (Some (sum_list (map val_carga df) / 2)),
     St_Metric ''Demanda Media'' (Some (sum_list (map val_carga df) / real (length df))),
     St_Metric ''Pico de Demanda'' (Some (Max (val_carga ` set df)))]"
proof -
  from assms obtain r rs where df: "df = r # rs"
    by (cases df) auto
  have "carga_total df = sum_list (map val_carga df) / 2"
    by (simp add: carga_total_def pd_sum_sum_list)
  moreover have "demanda_media df = Some (sum_list (map val_carga df) / real (length df))"
    using assms by (simp add: demanda_media_def pd_mean_def pd_sum_sum_list)
  moreover have "pico_demanda df = Some (Max (val_carga ` set df))"
    by (simp add: pico_demanda_def df foldl_max_Max)
  ultimately show ?thesis
    by (simp add: metricas_def)
qed

text \<open>Once the main query has fetched a row, the branch shows the four metrics first.\<close>

lemma elements_analise:
  assumes "load_data client (Query_Principal data_inicio data_fim sel) = (Balanco_Frame df, shown)"
    and "df \<noteq> []"
  shows "take 4 (elements (analise palette client data_inicio data_fim sel)) = metricas df"
proof -
  from fetched_rows [OF assms(1)] have "shown = []"
    by blast
  with assms show ?thesis
    by (simp add: analise_def Let_def metricas_def split: sum.splits)
qed

text \<open>
  Claim C1. For every fetched table with at least one row, the first three metrics shown
  are: total energy, the sum of the load column divided by 2; mean demand, the sum of the
  load column divided by the number of rows; peak demand, the greatest load. Each is
  taken over all rows of the table, whatever their subsystem.
\<close>

theorem demand_metrics:
  assumes "load_data client (Query_Principal data_inicio data_fim sel) = (Balanco_Frame df, shown)"
    and "df \<noteq> []"
  shows "take 3 (elements (analise palette client data_inicio data_fim sel)) =
    [St_Metric ''Energia Total'' (Some (sum_list (map val_carga df) / 2)),
     St_Metric ''Demanda Media'' (Some (sum_list (map val_carga df) / real (length df))),
     St_Metric ''Pico de Demanda'' (Some (Max (val_carga ` set df)))]"
proof -
  have "take 3 (elements (analise palette client data_inicio data_fim sel)) =
        take 3 (take 4 (elements (analise palette client data_inicio data_fim sel)))"
    by simp
  also have "\<dots> = take 3 (metricas df)"
    by (simp only: elements_analise [OF assms])
  finally show ?thesis
    by (simp only: metricas_demand [OF assms(2)])
qed

text \<open>The spec's example: loads 1000 and 2000 give 1500, 1500 and 2000.\<close>

theorem demand_metrics_witness:
  "load_data (servidor tabela_exemplo) (Query_Principal 738886 738892 [''SE/CO'']) =
     (Balanco_Frame df_exemplo, []) \<and>
   map val_carga df_exemplo = [1000, 2000] \<and>
   df_exemplo \<noteq> [] \<and>
   take 3 (elements (analise set1 (servidor tabela_exemplo) 738886 738892 [''SE/CO''])) =
     [St_Metric ''Energia Total'' (Some 1500),
      St_Metric ''Demanda Media'' (Some 1500),
      St_Metric ''Pico de Demanda'' (Some 2000)]"
proof -
  have fetched:
    "load_data (servidor tabela_exemplo) (Query_Principal 738886 738892 [''SE/CO'']) =
       (Balanco_Frame df_exemplo, [])"
    and loads: "map val_carga df_exemplo = [1000, 2000]"
    and ne: "df_exemplo \<noteq> []"
    by (simp_all add: exemplo_defs query_defs)
  from demand_metrics [OF fetched ne, of set1] loads fetched ne show ?thesis
    by (simp add: exemplo_defs query_defs)
qed

subsection \<open>Renewable share\<close>

text \<open>
  Claim C2, as amended. For every fetched table, the renewable percentage (the fourth
  metric shown) equals
  100 times the sum of hydro, wind and solar generation divided by the sum of total
  generation when that sum is positive, and equals 0 when that sum is zero or negative.
\<close>

theorem renovavel_pct_formula:
  "(0 < sum_list (map geracao_total df) \<longrightarrow>
      renovavel_pct df =
        100 * sum_list (map (\<lambda>r. geracao_hidraulica r + geracao_eolica r + geracao_solar r) df)
          / sum_list (map geracao_total df)) \<and>
   (sum_list (map geracao_total df) \<le> 0 \<longrightarrow> renovavel_pct df = 0)"
  by (simp add: renovavel_pct_def geracao_total_soma_def geracao_renovavel_def pd_sum_sum_list)

theorem renovavel_pct_formula_witness:
  "0 < sum_list (map geracao_total df_exemplo) \<and>
   renovavel_pct df_exemplo = 100 * 2200 / 3000 \<and>
   sum_list (map geracao_total df_sem_geracao) \<le> 0 \<and>
   renovavel_pct df_sem_geracao = 0"
  using renovavel_pct_formula [of df_exemplo] renovavel_pct_formula [of df_sem_geracao]
  by (simp add: exemplo_defs df_sem_geracao_def query_defs)

text \<open>
  The claim as stated fails on a fetched table whose total generation sums to a negative
  number: hydro 1 and thermal -2 give a renewable sum of 1 and a total of -1; the script
  shows 0, the quotient is -100.
\<close>

theorem renovavel_pct_formula_counterexample:
  "load_data (servidor tabela_total_negativo) (Query_Principal 738886 738886 [''N'']) =
     (Balanco_Frame df_total_negativo, []) \<and>
   geracao_renovavel df_total_negativo = 1 \<and>
   geracao_total_soma df_total_negativo = - 1 \<and>
   renovavel_pct df_total_negativo = 0 \<and>
   renovavel_pct df_total_negativo \<noteq>
     100 * geracao_renovavel df_total_negativo / geracao_total_soma df_total_negativo"
  by (simp add: df_total_negativo_def tabela_total_negativo_def servidor_def leitura_def
      query_defs metricas_defs)

text \<open>
  Claim C4, as amended. For every fetched table the renewable percentage is 0 when the
  total generation sums to 0, and it lies between 0 and 100 when no generation value of
  the table is negative.
\<close>

theorem renovavel_pct_range:
  assumes "load_data client q = (Balanco_Frame df, shown)"
  shows "(geracao_total_soma df = 0 \<longrightarrow> renovavel_pct df = 0) \<and>
    ((\<forall>r\<in>set df. 0 \<le> geracao_hidraulica r \<and> 0 \<le> geracao_termica r \<and>
                   0 \<le> geracao_eolica r \<and> 0 \<le> geracao_solar r) \<longrightarrow>
     0 \<le> renovavel_pct df \<and> renovavel_pct df \<le> 100)"
proof (intro conjI impI)
  assume "geracao_total_soma df = 0"
  then show "renovavel_pct df = 0"
    by (simp add: renovavel_pct_def)
next
  assume nonneg: "\<forall>r\<in>set df. 0 \<le> geracao_hidraulica r \<and> 0 \<le> geracao_termica r \<and>
                   0 \<le> geracao_eolica r \<and> 0 \<le> geracao_solar r"
  have ren: "0 \<le> geracao_renovavel df"
    unfolding geracao_renovavel_def pd_sum_sum_list
    using nonneg by (intro sum_list_nonneg) auto
  have le: "geracao_renovavel df \<le> geracao_total_soma df"
    unfolding geracao_renovavel_def geracao_total_soma_def pd_sum_sum_list
  proof (rule sum_list_mono)
    fix r assume r: "r \<in> set df"
    with nonneg have "0 \<le> geracao_termica r" by simp
    with fetched_total [OF assms r]
    show "geracao_hidraulica r + geracao_eolica r + geracao_solar r \<le> geracao_total r"
      by simp
  qed
  show "0 \<le> renovavel_pct df"
    using ren by (simp add: renovavel_pct_def)
  show "renovavel_pct df \<le> 100"
  proof (cases "0 < geracao_total_soma df")
    case True
    with le show ?thesis
      by (simp add: renovavel_pct_def divide_le_eq)
  next
    case False
    then show ?thesis
      by (simp add: renovavel_pct_def)
  qed
qed

theorem renovavel_pct_range_witness:
  "load_data (servidor tabela_exemplo) (Query_Principal 738800 738800 [''S'']) =
     (Balanco_Frame df_sem_geracao, []) \<and>
   geracao_total_soma df_sem_geracao = 0 \<and>
   renovavel_pct df_sem_geracao = 0 \<and>
   load_data (servidor tabela_exemplo) (Query_Principal 738886 738892 [''SE/CO'']) =
     (Balanco_Frame df_exemplo, []) \<and>
   list_all (\<lambda>r. 0 \<le> geracao_hidraulica r \<and> 0 \<le> geracao_termica r \<and>
                  0 \<le> geracao_eolica r \<and> 0 \<le> geracao_solar r) df_exemplo \<and>
   0 \<le> renovavel_pct df_exemplo \<and> renovavel_pct df_exemplo \<le> 100"
  using renovavel_pct_range
      [of "servidor tabela_exemplo" "Query_Principal 738800 738800 [''S'']" df_sem_geracao "[]"]
    renovavel_pct_range
      [of "servidor tabela_exemplo" "Query_Principal 738886 738892 [''SE/CO'']" df_exemplo "[]"]
  by (simp add: exemplo_defs df_sem_geracao_def query_defs metricas_defs)

text \<open>
  The claim as stated fails on a fetched table with a negative thermal value: hydro 10
  and thermal -5 give a renewable sum of 10 over a total of 5, that is 200 percent.
\<close>

theorem renovavel_pct_range_counterexample:
  "load_data (servidor tabela_termica_negativa) (Query_Principal 738886 738886 [''N'']) =
     (Balanco_Frame df_termica_negativa, []) \<and>
   renovavel_pct df_termica_negativa = 200 \<and>
   \<not> renovavel_pct df_termica_negativa \<le> 100"
  by (simp add: df_termica_negativa_def tabela_termica_negativa_def servidor_def leitura_def
      query_defs metricas_defs)

subsection \<open>The fetched rows and the catalogue of subsystems\<close>

text \<open>
  Claim C8. In every row of the fetched table, the total-generation field is the sum of
  the four generation fields, and these are the four generation columns of a row of the
  table with each absent value replaced by zero.
\<close>

theorem geracao_total_invariant:
  assumes "load_data client q = (Balanco_Frame df, shown)" and "r \<in> set df"
  shows "geracao_total r =
           geracao_hidraulica r + geracao_termica r + geracao_eolica r + geracao_solar r \<and>
    (\<exists>tbl raw. client q = Inr tbl \<and> raw \<in> set tbl \<and>
       geracao_hidraulica r = (case val_gerhidraulica raw of None \<Rightarrow> 0 | Some v \<Rightarrow> v) \<and>
       geracao_termica r = (case val_gertermica raw of None \<Rightarrow> 0 | Some v \<Rightarrow> v) \<and>
       geracao_eolica r = (case val_gereolica raw of None \<Rightarrow> 0 | Some v \<Rightarrow> v) \<and>
       geracao_solar r = (case val_gersolar raw of None \<Rightarrow> 0 | Some v \<Rightarrow> v))"
proof
  show "geracao_total r =
          geracao_hidraulica r + geracao_termica r + geracao_eolica r + geracao_solar r"
    using assms by (rule fetched_total)
next
  from fetched_rows [OF assms(1)] assms(2) obtain tbl raw
    where "client q = Inr tbl" and "raw \<in> set tbl" and "r = select_principal raw"
    by auto
  then show "\<exists>tbl raw. client q = Inr tbl \<and> raw \<in> set tbl \<and>
       geracao_hidraulica r = (case val_gerhidraulica raw of None \<Rightarrow> 0 | Some v \<Rightarrow> v) \<and>
       geracao_termica r = (case val_gertermica raw of None \<Rightarrow> 0 | Some v \<Rightarrow> v) \<and>
       geracao_eolica r = (case val_gereolica raw of None \<Rightarrow> 0 | Some v \<Rightarrow> v) \<and>
       geracao_solar r = (case val_gersolar raw of None \<Rightarrow> 0 | Some v \<Rightarrow> v)"
    by (auto simp: select_principal_def coalesce_def)
qed

text \<open>The first example row has no solar value: 600 + 300 + 100 + 0 = 1000.\<close>

theorem geracao_total_invariant_witness:
  "load_data (servidor tabela_exemplo) (Query_Principal 738886 738892 [''SE/CO'']) =
     (Balanco_Frame df_exemplo, []) \<and>
   hd df_exemplo \<in> set df_exemplo \<and>
   val_gersolar (hd tabela_exemplo) = None \<and>
   geracao_solar (hd df_exemplo) = 0 \<and>
   geracao_total (hd df_exemplo) = 1000 \<and>
   geracao_total (hd df_exemplo) =
     geracao_hidraulica (hd df_exemplo) + geracao_termica (hd df_exemplo) +
     geracao_eolica (hd df_exemplo) + geracao_solar (hd df_exemplo)"
  using geracao_total_invariant
      [of "servidor tabela_exemplo" "Query_Principal 738886 738892 [''SE/CO'']" df_exemplo "[]"
          "hd df_exemplo"]
  by (simp add: exemplo_defs query_defs)

text \<open>
  Claim C7. When the catalogue query is answered, the labels handed to the subsystem
  filter are exactly the non-empty labels of the table, in strictly ascending order:
  sorted, and none twice.
\<close>

theorem subsistemas_disponiveis:
  assumes "client Subsistemas_Query = Inr tbl"
  shows "\<exists>labels.
           load_data client Subsistemas_Query = (Subsistemas_Frame labels, []) \<and>
           tolist_nom_subsistema (Subsistemas_Frame labels) = Inr labels \<and>
           sorted_wrt (<) labels \<and>
           set labels = {s \<in> nom_subsistema ` set tbl. s \<noteq> []}"
proof -
  let ?labels = "sort (remdups (filter (\<lambda>s. s \<noteq> []) (map nom_subsistema tbl)))"
  have "load_data client Subsistemas_Query = (Subsistemas_Frame ?labels, [])"
    using assms by (simp add: load_data_def query_df_def)
  moreover have "sorted_wrt (<) ?labels"
    by (simp add: strict_sorted_iff)
  moreover have "set ?labels = {s \<in> nom_subsistema ` set tbl. s \<noteq> []}"
    by auto
  ultimately show ?thesis
    by (intro exI [of _ ?labels]) simp
qed

theorem subsistemas_disponiveis_witness:
  "servidor tabela_exemplo Subsistemas_Query = Inr tabela_exemplo \<and>
   map nom_subsistema tabela_exemplo = [''SE/CO'', ''SE/CO'', ''S'', []] \<and>
   load_data (servidor tabela_exemplo) Subsistemas_Query =
     (Subsistemas_Frame [''S'', ''SE/CO''], []) \<and>
   sorted_wrt (<) [''S'', ''SE/CO'']"
  using subsistemas_disponiveis [of "servidor tabela_exemplo" tabela_exemplo]
  by (simp add: exemplo_defs query_defs)

subsection \<open>The load curve\<close>

lemma filter_subsistema_nonempty:
  "filter (\<lambda>r. nom_subsistema r = s) df \<noteq> [] \<longleftrightarrow> s \<in> nom_subsistema ` set df"
  by (auto simp: filter_empty_conv)

lemma add_trace_eq:
  assumes "palette \<noteq> []"
  shows "add_trace palette df p fig =
     Inr (fig @ map (serie palette df)
                  (filter (\<lambda>(i, s). s \<in> nom_subsistema ` set df) [p]))"
  using assms
  by (cases p) (simp add: add_trace_def Let_def serie_def filter_subsistema_nonempty)

lemma add_traces_eq:
  assumes "palette \<noteq> []"
  shows "add_traces palette df ps fig =
     Inr (fig @ map (serie palette df)
                  (filter (\<lambda>(i, s). s \<in> nom_subsistema ` set df) ps))"
proof (induction ps arbitrary: fig)
  case Nil
  show ?case by simp
next
  case (Cons p ps)
  have "add_traces palette df (p # ps) fig =
        add_traces palette df ps
          (fig @ map (serie palette df)
                   (filter (\<lambda>(i, s). s \<in> nom_subsistema ` set df) [p]))"
    by (simp add: add_trace_eq [OF assms] del: filter.simps)
  also have "\<dots> =
        Inr (fig @ map (serie palette df)
                     (filter (\<lambda>(i, s). s \<in> nom_subsistema ` set df) (p # ps)))"
    by (simp add: Cons.IH)
  finally show ?case .
qed

text \<open>
  Claim C6, as amended. With a non-empty palette the chart holds, in selection order, one
  line series for each selected subsystem that has at least one row in the fetched table,
  and none for a selected subsystem without rows; the series of the subsystem at
  selection index i has that subsystem's timestamps as x, its loads as y, and the
  palette entry at index i modulo the palette size as colour. When every selected
  subsystem has a row, that is one series per selected subsystem.
\<close>

theorem curva_de_carga_series:
  assumes "palette \<noteq> []"
  shows "\<exists>fig.
    curva_de_carga palette df sel = Inr fig \<and>
    fig = map (serie palette df)
            (filter (\<lambda>(i, s). s \<in> nom_subsistema ` set df) (List.enumerate 0 sel)) \<and>
    ((\<forall>s\<in>set sel. s \<in> nom_subsistema ` set df) \<longrightarrow>
       length fig = length sel \<and>
       (\<forall>i<length sel. fig ! i = serie palette df (i, sel ! i)))"
proof -
  let ?has = "\<lambda>(i, s). s \<in> nom_subsistema ` set df"
  let ?fig = "map (serie palette df) (filter ?has (List.enumerate 0 sel))"
  have run: "curva_de_carga palette df sel = Inr ?fig"
    by (simp add: curva_de_carga_def add_traces_eq [OF assms])
  have all: "length ?fig = length sel \<and>
             (\<forall>i<length sel. ?fig ! i = serie palette df (i, sel ! i))"
    if every: "\<forall>s\<in>set sel. s \<in> nom_subsistema ` set df"
  proof -
    have "filter ?has (List.enumerate 0 sel) = List.enumerate 0 sel"
      using every by (intro filter_True) (auto simp: in_set_enumerate_eq)
    then show ?thesis
      by (simp add: nth_enumerate_eq)
  qed
  from run all show ?thesis
    by blast
qed

theorem curva_de_carga_series_witness:
  "set1 \<noteq> [] \<and>
   curva_de_carga set1 df_exemplo [''S'', ''SE/CO''] =
     Inr [\<lparr> scatter_x = [0, 1], scatter_y = [1000, 2000], scatter_name = ''SE/CO'',
            line_color = ''rgb(55,126,184)'' \<rparr>] \<and>
   list_all (\<lambda>s. s \<in> nom_subsistema ` set df_exemplo) [''SE/CO''] \<and>
   curva_de_carga set1 df_exemplo [''SE/CO''] =
     Inr [\<lparr> scatter_x = [0, 1], scatter_y = [1000, 2000], scatter_name = ''SE/CO'',
            line_color = ''rgb(228,26,28)'' \<rparr>]"
  using curva_de_carga_series [of set1 df_exemplo "[''S'', ''SE/CO'']"]
    curva_de_carga_series [of set1 df_exemplo "[''SE/CO'']"]
  by (simp add: exemplo_defs query_defs serie_def)

text \<open>
  The claim as stated fails when a selected subsystem has no row in the window. In the
  example visit the catalogue offers S and SE/CO and both are selected, S has no row
  between 2024-01-01 and 2024-01-07, and the chart holds the one series of SE/CO.
\<close>

theorem curva_de_carga_series_counterexample:
  "main env_exemplo =
     \<lparr> elements =
         [St_Metric ''Energia Total'' (Some 1500),
          St_Metric ''Demanda Media'' (Some 1500),
          St_Metric ''Pico de Demanda'' (Some 2000),
          St_Metric ''Renovavel'' (Some (220 / 3)),
          Plotly_Chart
            [\<lparr> scatter_x = [0, 1], scatter_y = [1000, 2000], scatter_name = ''SE/CO'',
               line_color = ''rgb(55,126,184)'' \<rparr>],
          Expander 738886 738892 [''S'', ''SE/CO''] 2,
          Footer],
       queries = [Subsistemas_Query, Query_Principal 738886 738892 [''S'', ''SE/CO'']],
       outcome = Finished \<rparr>"
  by (simp add: script_defs exemplo_defs query_defs metricas_defs)

subsection \<open>The paths of the script\<close>

lemma load_data_Inr: "client q = Inr tbl \<Longrightarrow> load_data client q = (run_query q tbl, [])"
  by (simp add: load_data_def query_df_def)

lemma load_data_Inl:
  "client q = Inl e \<Longrightarrow>
   load_data client q = (DataFrame, [St_Error (''Erro na consulta: '' @ e)])"
  by (simp add: load_data_def query_df_def)

lemma periodo_de_analise_Inr:
  assumes "periodo \<noteq> []"
  shows "\<exists>data_inicio data_fim. periodo_de_analise periodo = Inr (data_inicio, data_fim)"
  using assms by (cases periodo) (simp_all add: periodo_de_analise_def)

lemma queries_analise:
  "queries (analise palette client data_inicio data_fim sel) =
     [Query_Principal data_inicio data_fim sel]"
  by (simp add: analise_def Let_def split: prod.splits dataframe.splits sum.splits)

lemma add_traces_error:
  "add_traces palette df ps fig = Inl err \<Longrightarrow> err = ZeroDivisionError"
proof (induction ps arbitrary: fig)
  case Nil
  then show ?case by simp
next
  case (Cons p ps)
  then show ?case
    by (cases p) (auto simp: add_trace_def Let_def split: if_splits sum.splits)
qed

lemma outcome_analise:
  "outcome (analise palette client data_inicio data_fim sel) \<noteq> Raised IndexError"
proof -
  have "curva_de_carga palette rows sel \<noteq> Inl IndexError" for rows
    using add_traces_error [of palette rows "List.enumerate 0 sel" "[]" IndexError]
    by (auto simp: curva_de_carga_def)
  then show ?thesis
    by (auto simp: analise_def Let_def split: prod.splits dataframe.splits sum.splits)
qed

lemma analise_empty:
  assumes "empty (fst (load_data client (Query_Principal data_inicio data_fim sel)))"
  shows "analise palette client data_inicio data_fim sel =
     \<lparr> elements = snd (load_data client (Query_Principal data_inicio data_fim sel)) @
         [St_Warning ''Nenhum dado encontrado para o periodo selecionado''],
       queries = [Query_Principal data_inicio data_fim sel], outcome = Stopped \<rparr>"
  using assms
  by (cases "load_data client (Query_Principal data_inicio data_fim sel)")
     (simp add: analise_def Let_def)

text \<open>The script up to the multiselect, when the catalogue query gave some label.\<close>

lemma main_catalog:
  assumes "get_client env = Inr client"
    and "periodo_de_analise (date_input env) = Inr (data_inicio, data_fim)"
    and "client Subsistemas_Query = Inr tbl"
    and "run_query Subsistemas_Query tbl = Subsistemas_Frame labels"
    and "labels \<noteq> []"
  shows "main env =
     after [] [Subsistemas_Query]
       (if multiselect env labels (if 3 < length labels then take 3 labels else labels) \<noteq> []
        then analise (cores env) client data_inicio data_fim
               (multiselect env labels (if 3 < length labels then take 3 labels else labels))
        else \<lparr> elements =
                 [St_Warning ''Selecione pelo menos um subsistema para visualizar os dados'',
                  Footer],
               queries = [], outcome = Finished \<rparr>)"
proof -
  have "load_data client Subsistemas_Query = (Subsistemas_Frame labels, [])"
    using assms(3,4) by (simp add: load_data_Inr)
  with assms(1,2,5) show ?thesis
    by (simp add: main_def init_clickhouse_connection_def Let_def)
qed

lemma main_empty_catalog:
  assumes "get_client env = Inr client"
    and "periodo_de_analise (date_input env) = Inr (data_inicio, data_fim)"
    and "empty (fst (load_data client Subsistemas_Query))"
  shows "main env =
     \<lparr> elements = snd (load_data client Subsistemas_Query) @
         [St_Error ''Nao foi possivel carregar os subsistemas''],
       queries = [Subsistemas_Query], outcome = Stopped \<rparr>"
proof (cases "load_data client Subsistemas_Query")
  case (Pair df_subsistemas shown)
  with assms show ?thesis
    by (simp add: main_def init_clickhouse_connection_def after_def)
qed

text \<open>
  Claim C3, as amended. When the multiselect returns no subsystem, the run shows the
  warning asking for at least one subsystem, shows no metric and no chart, and sends no
  main query: the only query sent is the catalogue query. The run is not halted: the
  script goes on to the footer and reaches its end.
\<close>

theorem empty_selection_no_query:
  assumes "get_client env = Inr client"
    and "date_input env \<noteq> []"
    and "client Subsistemas_Query = Inr tbl"
    and "run_query Subsistemas_Query tbl = Subsistemas_Frame labels"
    and "labels \<noteq> []"
    and "multiselect env labels (if 3 < length labels then take 3 labels else labels) = []"
  shows "main env =
     \<lparr> elements =
         [St_Warning ''Selecione pelo menos um subsistema para visualizar os dados'',
          Footer],
       queries = [Subsistemas_Query], outcome = Finished \<rparr>"
proof -
  from periodo_de_analise_Inr [OF assms(2)] obtain data_inicio data_fim
    where "periodo_de_analise (date_input env) = Inr (data_inicio, data_fim)"
    by blast
  from main_catalog [OF assms(1) this assms(3,4,5)] assms(6) show ?thesis
    by (simp add: after_def)
qed

theorem empty_selection_no_query_witness:
  "get_client env_sem_selecao = Inr (servidor tabela_exemplo) \<and>
   date_input env_sem_selecao \<noteq> [] \<and>
   servidor tabela_exemplo Subsistemas_Query = Inr tabela_exemplo \<and>
   run_query Subsistemas_Query tabela_exemplo = Subsistemas_Frame [''S'', ''SE/CO''] \<and>
   multiselect env_sem_selecao [''S'', ''SE/CO''] [''S'', ''SE/CO''] = [] \<and>
   main env_sem_selecao =
     \<lparr> elements =
         [St_Warning ''Selecione pelo menos um subsistema para visualizar os dados'',
          Footer],
       queries = [Subsistemas_Query], outcome = Finished \<rparr>"
  using empty_selection_no_query
      [of env_sem_selecao "servidor tabela_exemplo" tabela_exemplo "[''S'', ''SE/CO'']"]
  by (simp add: env_sem_selecao_def exemplo_defs)

text \<open>
  The claim as stated fails in that the run does not halt with an error. With the
  multiselect cleared, what is shown is a warning, no error; \<^verbatim>\<open>st.stop()\<close> is not
  called, and the footer is still rendered. The runs that do halt, on an empty catalogue
  or an empty result, end with \<open>Stopped\<close> and show no footer.
\<close>

theorem empty_selection_no_query_counterexample:
  "multiselect env_sem_selecao [''S'', ''SE/CO''] [''S'', ''SE/CO''] = [] \<and>
   elements (main env_sem_selecao) =
     [St_Warning ''Selecione pelo menos um subsistema para visualizar os dados'', Footer] \<and>
   outcome (main env_sem_selecao) = Finished \<and>
   outcome (main env_sem_selecao) \<noteq> Stopped \<and>
   Footer \<in> set (elements (main env_sem_selecao))"
  by (simp add: env_sem_selecao_def exemplo_defs script_defs query_defs)

text \<open>
  Claim C5. When the catalogue query returns no row, the run shows the error that the
  subsystems could not be loaded and stops; the only query sent is the catalogue query,
  so the main query is never sent.
\<close>

theorem empty_catalog_stops:
  assumes "get_client env = Inr client"
    and "date_input env \<noteq> []"
    and "client Subsistemas_Query = Inr tbl"
    and "run_query Subsistemas_Query tbl = Subsistemas_Frame []"
  shows "main env =
     \<lparr> elements = [St_Error ''Nao foi possivel carregar os subsistemas''],
       queries = [Subsistemas_Query], outcome = Stopped \<rparr>"
proof -
  from periodo_de_analise_Inr [OF assms(2)] obtain data_inicio data_fim
    where per: "periodo_de_analise (date_input env) = Inr (data_inicio, data_fim)"
    by blast
  have ld: "load_data client Subsistemas_Query = (Subsistemas_Frame [], [])"
    using assms(3,4) by (simp add: load_data_Inr)
  from main_empty_catalog [OF assms(1) per] ld show ?thesis
    by simp
qed

theorem empty_catalog_stops_witness:
  "get_client env_sem_rotulos = Inr servidor_sem_rotulos \<and>
   date_input env_sem_rotulos \<noteq> [] \<and>
   servidor_sem_rotulos Subsistemas_Query = Inr [leitura 738886 0 [] 7 None None None None] \<and>
   run_query Subsistemas_Query [leitura 738886 0 [] 7 None None None None] =
     Subsistemas_Frame [] \<and>
   main env_sem_rotulos =
     \<lparr> elements = [St_Error ''Nao foi possivel carregar os subsistemas''],
       queries = [Subsistemas_Query], outcome = Stopped \<rparr>"
  using empty_catalog_stops
      [of env_sem_rotulos servidor_sem_rotulos "[leitura 738886 0 [] 7 None None None None]"]
  by (simp add: env_sem_rotulos_def servidor_sem_rotulos_def exemplo_defs)

text \<open>
  Claim C9. \<open>load_data\<close> returns a frame whatever the client does: when the query
  raises, it shows the query error and returns the frame without rows. The script then
  tests only whether the frame is empty, so a failed main query and a main query that
  found no row end the run the same way: the warning that no data was found for the
  period, and a stop.
\<close>

theorem load_data_failure_is_empty:
  assumes "get_client env = Inr client"
    and "periodo_de_analise (date_input env) = Inr (data_inicio, data_fim)"
    and "client Subsistemas_Query = Inr tbl"
    and "run_query Subsistemas_Query tbl = Subsistemas_Frame labels"
    and "labels \<noteq> []"
    and "multiselect env labels (if 3 < length labels then take 3 labels else labels) = sel"
    and "sel \<noteq> []"
  shows "(c q = Inl e \<longrightarrow>
            load_data c q = (DataFrame, [St_Error (''Erro na consulta: '' @ e)]) \<and>
            empty (fst (load_data c q))) \<and>
         (empty (fst (load_data client (Query_Principal data_inicio data_fim sel))) \<longrightarrow>
            main env =
              \<lparr> elements =
                  snd (load_data client (Query_Principal data_inicio data_fim sel)) @
                  [St_Warning ''Nenhum dado encontrado para o periodo selecionado''],
                queries = [Subsistemas_Query, Query_Principal data_inicio data_fim sel],
                outcome = Stopped \<rparr>)"
proof (intro conjI impI)
  assume "c q = Inl e"
  then show "load_data c q = (DataFrame, [St_Error (''Erro na consulta: '' @ e)])"
    and "empty (fst (load_data c q))"
    by (simp_all add: load_data_Inl)
next
  assume "empty (fst (load_data client (Query_Principal data_inicio data_fim sel)))"
  from analise_empty [OF this] main_catalog [OF assms(1-5)] assms(6,7)
  show "main env =
     \<lparr> elements =
         snd (load_data client (Query_Principal data_inicio data_fim sel)) @
         [St_Warning ''Nenhum dado encontrado para o periodo selecionado''],
       queries = [Subsistemas_Query, Query_Principal data_inicio data_fim sel],
       outcome = Stopped \<rparr>"
    by (simp add: after_def)
qed

text \<open>
  Two visits with S and SE/CO selected: one on which the main query times out, one whose
  window lies before any data.
\<close>

theorem load_data_failure_is_empty_witness:
  "servidor_falha_principal (Query_Principal 738886 738892 [''S'', ''SE/CO'']) =
     Inl ''timeout'' \<and>
   load_data servidor_falha_principal (Query_Principal 738886 738892 [''S'', ''SE/CO'']) =
     (DataFrame, [St_Error ''Erro na consulta: timeout'']) \<and>
   main env_falha_principal =
     \<lparr> elements =
         [St_Error ''Erro na consulta: timeout'',
          St_Warning ''Nenhum dado encontrado para o periodo selecionado''],
       queries = [Subsistemas_Query, Query_Principal 738886 738892 [''S'', ''SE/CO'']],
       outcome = Stopped \<rparr> \<and>
   load_data (servidor tabela_exemplo) (Query_Principal 700000 700006 [''S'', ''SE/CO'']) =
     (Balanco_Frame [], []) \<and>
   main env_sem_dados =
     \<lparr> elements = [St_Warning ''Nenhum dado encontrado para o periodo selecionado''],
       queries = [Subsistemas_Query, Query_Principal 700000 700006 [''S'', ''SE/CO'']],
       outcome = Stopped \<rparr>"
proof -
  let ?sel = "[''S'', ''SE/CO'']"
  let ?q = "Query_Principal 738886 738892 ?sel"
  let ?q' = "Query_Principal 700000 700006 ?sel"
  have cat: "run_query Subsistemas_Query tabela_exemplo = Subsistemas_Frame ?sel"
    and ne: "?sel \<noteq> []"
    by (simp_all add: exemplo_defs)
  have fails: "servidor_falha_principal ?q = Inl ''timeout''"
    by (simp add: servidor_falha_principal_def)
  have conn: "get_client env_falha_principal = Inr servidor_falha_principal"
    and per: "periodo_de_analise (date_input env_falha_principal) = Inr (738886, 738892)"
    and srv: "servidor_falha_principal Subsistemas_Query = Inr tabela_exemplo"
    and sel: "multiselect env_falha_principal ?sel
                (if 3 < length ?sel then take 3 ?sel else ?sel) = ?sel"
    by (simp_all add: env_falha_principal_def env_exemplo_def servidor_falha_principal_def
        periodo_de_analise_def)
  have conn': "get_client env_sem_dados = Inr (servidor tabela_exemplo)"
    and per': "periodo_de_analise (date_input env_sem_dados) = Inr (700000, 700006)"
    and srv': "servidor tabela_exemplo Subsistemas_Query = Inr tabela_exemplo"
    and sel': "multiselect env_sem_dados ?sel
                (if 3 < length ?sel then take 3 ?sel else ?sel) = ?sel"
    by (simp_all add: env_sem_dados_def env_exemplo_def servidor_def periodo_de_analise_def)
  have none: "load_data (servidor tabela_exemplo) ?q' = (Balanco_Frame [], [])"
    by (simp add: exemplo_defs query_defs)
  note failed =
    load_data_failure_is_empty [OF conn per srv cat ne sel ne,
      of servidor_falha_principal ?q "''timeout''"]
  note no_rows =
    load_data_failure_is_empty [OF conn' per' srv' cat ne sel' ne,
      of servidor_falha_principal ?q "''timeout''"]
  from failed fails have "load_data servidor_falha_principal ?q =
      (DataFrame, [St_Error ''Erro na consulta: timeout''])"
    by simp
  moreover from this failed have "main env_falha_principal =
     \<lparr> elements =
         [St_Error ''Erro na consulta: timeout'',
          St_Warning ''Nenhum dado encontrado para o periodo selecionado''],
       queries = [Subsistemas_Query, ?q], outcome = Stopped \<rparr>"
    by simp
  moreover from none no_rows have "main env_sem_dados =
     \<lparr> elements = [St_Warning ''Nenhum dado encontrado para o periodo selecionado''],
       queries = [Subsistemas_Query, ?q'], outcome = Stopped \<rparr>"
    by simp
  ultimately show ?thesis
    using fails none by simp
qed

text \<open>
  Claim C10. When the date picker returns a single date d, the window is d to d, no error
  is raised for it, and the main query sent carries that one-day range: it selects the
  rows of the selected subsystems whose reference day is d.
\<close>

theorem single_date_window:
  assumes "get_client env = Inr client"
    and "date_input env = [d]"
    and "client Subsistemas_Query = Inr tbl"
    and "run_query Subsistemas_Query tbl = Subsistemas_Frame labels"
    and "labels \<noteq> []"
    and "multiselect env labels (if 3 < length labels then take 3 labels else labels) = sel"
    and "sel \<noteq> []"
  shows "periodo_de_analise (date_input env) = Inr (d, d) \<and>
         queries (main env) = [Subsistemas_Query, Query_Principal d d sel] \<and>
         outcome (main env) \<noteq> Raised IndexError \<and>
         (\<forall>r. where_principal d d sel r \<longleftrightarrow> data_ref r = d \<and> nom_subsistema r \<in> set sel)"
proof (intro conjI)
  show per: "periodo_de_analise (date_input env) = Inr (d, d)"
    using assms(2) by (simp add: periodo_de_analise_def)
  have m: "main env = after [] [Subsistemas_Query] (analise (cores env) client d d sel)"
    using main_catalog [OF assms(1) per assms(3,4,5)] assms(6,7) by simp
  show "queries (main env) = [Subsistemas_Query, Query_Principal d d sel]"
    by (simp add: m after_def queries_analise)
  show "outcome (main env) \<noteq> Raised IndexError"
    by (simp add: m after_def outcome_analise)
  show "\<forall>r. where_principal d d sel r \<longleftrightarrow> data_ref r = d \<and> nom_subsistema r \<in> set sel"
    by (auto simp: where_principal_def)
qed

theorem single_date_window_witness:
  "get_client env_um_dia = Inr (servidor tabela_exemplo) \<and>
   date_input env_um_dia = [738886] \<and>
   run_query Subsistemas_Query tabela_exemplo = Subsistemas_Frame [''S'', ''SE/CO''] \<and>
   multiselect env_um_dia [''S'', ''SE/CO''] [''S'', ''SE/CO''] = [''S'', ''SE/CO''] \<and>
   periodo_de_analise (date_input env_um_dia) = Inr (738886, 738886) \<and>
   queries (main env_um_dia) =
     [Subsistemas_Query, Query_Principal 738886 738886 [''S'', ''SE/CO'']] \<and>
   outcome (main env_um_dia) = Finished \<and>
   where_principal 738886 738886 [''S'', ''SE/CO''] (hd tabela_exemplo)"
  using single_date_window
      [of env_um_dia "servidor tabela_exemplo" 738886 tabela_exemplo
          "[''S'', ''SE/CO'']" "[''S'', ''SE/CO'']"]
  by (simp add: env_um_dia_def exemplo_defs script_defs query_defs metricas_defs)

end
